theory Spec2Isabelle
  imports Complex_Main "HOL-Library.AList" "HOL-Library.Multiset"
    "HOL-Library.Char_ord" "HOL-Library.List_Lexorder" "HOL-Library.Product_Lexorder"
begin

section \<open>Python values\<close>

text \<open>
  The statistics module of Player10 (\<^verbatim>\<open>players/player_10/tools/statistics.py\<close>) works on
  untyped simulation results (\<^verbatim>\<open>SimulationResult = Any\<close>).  A result is modelled as a
  Python value: \<open>PDict\<close> is a mapping with string keys (what \<^verbatim>\<open>json.load\<close> produces),
  \<open>PObj\<close> is an object with instance attributes (a dataclass or a \<^verbatim>\<open>SimpleNamespace\<close>).
  Floats are idealised as reals: no NaN, no infinity and no rounding; what is kept of the
  double format is its range, since converting an integer beyond it raises.
  Exceptions are values of type \<open>error\<close>; a function that can raise returns \<open>error + 'a\<close>.
\<close>

datatype error =
    ImportError
  | ValueError string
  | TypeError
  | KeyError
  | AttributeError
  | ZeroDivisionError
  | OverflowError

datatype pyval =
    PNone
  | PBool bool
  | PInt int
  | PFloat real
  | PStr string
  | PList "pyval list"
  | PDict "(string \<times> pyval) list"
  | PObj "(string \<times> pyval) list"

type_synonym record_row = "(string \<times> pyval) list"

text \<open>
  \<^verbatim>\<open>_get(source, attr, default)\<close>: \<^verbatim>\<open>source.get(attr, default)\<close> on a mapping,
  \<^verbatim>\<open>getattr(source, attr, default)\<close> otherwise.  The attribute names the module asks for
  are its own field names, none of which is an attribute of a built-in scalar or list.
\<close>

fun py_get :: "pyval \<Rightarrow> string \<Rightarrow> pyval \<Rightarrow> pyval" where
  "py_get (PDict d) attr dflt = (case map_of d attr of None \<Rightarrow> dflt | Some v \<Rightarrow> v)"
| "py_get (PObj a) attr dflt = (case map_of a attr of None \<Rightarrow> dflt | Some v \<Rightarrow> v)"
| "py_get _ attr dflt = dflt"

text \<open>\<^verbatim>\<open>getattr(source, attr, default)\<close>: a mapping has no such attribute.\<close>

fun py_getattr :: "pyval \<Rightarrow> string \<Rightarrow> pyval \<Rightarrow> pyval" where
  "py_getattr (PObj a) attr dflt = (case map_of a attr of None \<Rightarrow> dflt | Some v \<Rightarrow> v)"
| "py_getattr _ attr dflt = dflt"

text \<open>
  \<^verbatim>\<open>_config_value(config, attr, default)\<close>: \<open>None\<close> gives the default, an object with the
  attribute gives the attribute, a mapping gives \<^verbatim>\<open>config.get(attr, default)\<close>, anything else
  the default.
\<close>

fun config_value :: "pyval \<Rightarrow> string \<Rightarrow> pyval \<Rightarrow> pyval" where
  "config_value PNone attr dflt = dflt"
| "config_value (PObj a) attr dflt = (case map_of a attr of None \<Rightarrow> dflt | Some v \<Rightarrow> v)"
| "config_value (PDict d) attr dflt = (case map_of d attr of None \<Rightarrow> dflt | Some v \<Rightarrow> v)"
| "config_value _ attr dflt = dflt"


text \<open>Truthiness, as \<^verbatim>\<open>if x\<close>, \<^verbatim>\<open>x and y\<close> and \<^verbatim>\<open>x or y\<close> test it.\<close>

fun py_truthy :: "pyval \<Rightarrow> bool" where
  "py_truthy PNone = False"
| "py_truthy (PBool b) = b"
| "py_truthy (PInt i) = (i \<noteq> 0)"
| "py_truthy (PFloat x) = (x \<noteq> 0)"
| "py_truthy (PStr s) = (s \<noteq> [])"
| "py_truthy (PList l) = (l \<noteq> [])"
| "py_truthy (PDict d) = (d \<noteq> [])"
| "py_truthy (PObj a) = True"

text \<open>
  \<^verbatim>\<open>float(i)\<close> of an integer rounds to the nearest double and raises \<^verbatim>\<open>OverflowError\<close>
  when the integer rounds beyond the largest one, \<open>2\<^sup>1\<^sup>0\<^sup>2\<^sup>4 - 2\<^sup>9\<^sup>7\<^sup>1\<close>: from
  \<open>2\<^sup>1\<^sup>0\<^sup>2\<^sup>4 - 2\<^sup>9\<^sup>7\<^sup>0\<close> on.
\<close>

definition float_overflows :: "int \<Rightarrow> bool" where
  "float_overflows i = (2 ^ 1024 - 2 ^ 970 \<le> \<bar>i\<bar>)"

text \<open>
  The built-in \<^verbatim>\<open>float(x)\<close>.  Parsing a string is the interpreter's work, taken as the
  parameter \<open>parse\<close> (\<open>None\<close> where Python raises \<^verbatim>\<open>ValueError\<close>).
\<close>

fun py_float :: "(string \<Rightarrow> real option) \<Rightarrow> pyval \<Rightarrow> error + real" where
  "py_float parse PNone = Inl TypeError"
| "py_float parse (PBool b) = Inr (if b then 1 else 0)"
| "py_float parse (PInt i) = (if float_overflows i then Inl OverflowError else Inr (real_of_int i))"
| "py_float parse (PFloat x) = Inr x"
| "py_float parse (PStr s) =
     (case parse s of None \<Rightarrow> Inl (ValueError ''could not convert string to float'')
      | Some x \<Rightarrow> Inr x)"
| "py_float parse (PList l) = Inl TypeError"
| "py_float parse (PDict d) = Inl TypeError"
| "py_float parse (PObj a) = Inl TypeError"

section \<open>Record Normalizer: \<^verbatim>\<open>results_to_records\<close>\<close>

text \<open>
  \<^verbatim>\<open>score_breakdown.items()\<close>: a mapping gives its entries; any other (truthy) value has no
  method \<^verbatim>\<open>items\<close>, and an attribute of that name that holds data is not callable.
\<close>

fun py_items :: "pyval \<Rightarrow> error + (string \<times> pyval) list" where
  "py_items (PDict d) = Inr d"
| "py_items (PObj a) = (if map_of a ''items'' = None then Inl AttributeError else Inl TypeError)"
| "py_items _ = Inl AttributeError"

text \<open>
  The loop over the breakdown entries: \<^verbatim>\<open>total\<close> is skipped, every other component is
  stored under \<^verbatim>\<open>shared_<component>\<close>.
\<close>

fun add_breakdown :: "record_row \<Rightarrow> (string \<times> pyval) list \<Rightarrow> record_row" where
  "add_breakdown row [] = row"
| "add_breakdown row ((component, v) # rest) =
     (if component = ''total'' then add_breakdown row rest
      else add_breakdown (AList.update (''shared_'' @ component) v row) rest)"

text \<open>\<^verbatim>\<open>row.get(key)\<close>.\<close>

definition row_get :: "record_row \<Rightarrow> string \<Rightarrow> pyval" where
  "row_get row k = (case map_of row k of None \<Rightarrow> PNone | Some v \<Rightarrow> v)"

text \<open>
  The derived field.  The key is written only inside the \<^verbatim>\<open>if\<close>; the conditional
  expression tests the configured length again, then converts the realized length, then the
  configured one, then divides.
\<close>

definition add_utilization :: "(string \<Rightarrow> real option) \<Rightarrow> record_row \<Rightarrow> error + record_row" where
  "add_utilization parse row =
     (let conversation_length_cfg = row_get row ''conversation_length_cfg'';
          conversation_length = row_get row ''conversation_length''
      in if py_truthy conversation_length_cfg \<and> py_truthy conversation_length then
           (case py_float parse conversation_length of
              Inl e \<Rightarrow> Inl e
            | Inr l \<Rightarrow>
               (case py_float parse conversation_length_cfg of
                  Inl e \<Rightarrow> Inl e
                | Inr c \<Rightarrow>
                   if c = 0 then Inl ZeroDivisionError
                   else Inr (AList.update ''length_utilization'' (PFloat (l / c)) row)))
         else Inr row)"

text \<open>The dictionary literal of one result, given the converted early-termination value.\<close>

definition base_row :: "pyval \<Rightarrow> real \<Rightarrow> record_row" where
  "base_row result early =
     (let config = py_get result ''config'' PNone in
      [(''altruism_prob'', config_value config ''altruism_prob'' PNone),
       (''tau_margin'', config_value config ''tau_margin'' PNone),
       (''epsilon_fresh'', config_value config ''epsilon_fresh'' PNone),
       (''epsilon_mono'', config_value config ''epsilon_mono'' PNone),
       (''subjects'', config_value config ''subjects'' PNone),
       (''memory_size'', config_value config ''memory_size'' PNone),
       (''conversation_length_cfg'', config_value config ''conversation_length'' PNone),
       (''seed'', config_value config ''seed'' PNone),
       (''min_samples_pid'', config_value config ''min_samples_pid'' PNone),
       (''ewma_alpha'', config_value config ''ewma_alpha'' PNone),
       (''importance_weight'', config_value config ''importance_weight'' PNone),
       (''coherence_weight'', config_value config ''coherence_weight'' PNone),
       (''freshness_weight'', config_value config ''freshness_weight'' PNone),
       (''monotony_weight'', config_value config ''monotony_weight'' PNone),
       (''total_score'', py_get result ''total_score'' PNone),
       (''player10_score'', py_get result ''player10_total_mean'' PNone),
       (''player10_individual'', py_get result ''player10_individual_mean'' PNone),
       (''player10_rank'', py_get result ''player10_rank_mean'' PNone),
       (''player10_gap_to_best'', py_get result ''player10_gap_to_best'' PNone),
       (''player10_instances'', py_get result ''player10_instances'' PNone),
       (''best_total_score'', py_get result ''best_total_score'' PNone),
       (''conversation_length'', py_get result ''conversation_length'' PNone),
       (''early_termination'', PFloat early),
       (''pause_count'', py_get result ''pause_count'' PNone),
       (''unique_items_used'', py_get result ''unique_items_used'' PNone),
       (''execution_time'', py_get result ''execution_time'' PNone)])"

text \<open>
  The body of the loop for one result: the literal (where \<^verbatim>\<open>float\<close> can raise), the
  breakdown (\<^verbatim>\<open>_get(result, 'score_breakdown', {}) or {}\<close>), the derived field.
\<close>

definition result_row :: "(string \<Rightarrow> real option) \<Rightarrow> pyval \<Rightarrow> error + record_row" where
  "result_row parse result =
     (case py_float parse (py_get result ''early_termination'' (PFloat 0)) of
        Inl e \<Rightarrow> Inl e
      | Inr early \<Rightarrow>
         (let sb = py_get result ''score_breakdown'' (PDict []);
              score_breakdown = (if py_truthy sb then sb else PDict [])
          in case py_items score_breakdown of
               Inl e \<Rightarrow> Inl e
             | Inr entries \<Rightarrow> add_utilization parse (add_breakdown (base_row result early) entries)))"

fun results_to_records :: "(string \<Rightarrow> real option) \<Rightarrow> pyval list \<Rightarrow> error + record_row list" where
  "results_to_records parse [] = Inr []"
| "results_to_records parse (result # rest) =
     (case result_row parse result of
        Inl e \<Rightarrow> Inl e
      | Inr row \<Rightarrow>
         (case results_to_records parse rest of
            Inl e \<Rightarrow> Inl e
          | Inr records \<Rightarrow> Inr (row # records)))"


text \<open>Whether \<^verbatim>\<open>float\<close> converts a value.\<close>

definition float_ok :: "(string \<Rightarrow> real option) \<Rightarrow> pyval \<Rightarrow> bool" where
  "float_ok parse v = (case py_float parse v of Inl e \<Rightarrow> False | Inr x \<Rightarrow> True)"


definition config_fields :: "(string \<times> string) list" where
  "config_fields =
     [(''altruism_prob'', ''altruism_prob''),
      (''tau_margin'', ''tau_margin''),
      (''epsilon_fresh'', ''epsilon_fresh''),
      (''epsilon_mono'', ''epsilon_mono''),
      (''subjects'', ''subjects''),
      (''memory_size'', ''memory_size''),
      (''conversation_length_cfg'', ''conversation_length''),
      (''seed'', ''seed''),
      (''min_samples_pid'', ''min_samples_pid''),
      (''ewma_alpha'', ''ewma_alpha''),
      (''importance_weight'', ''importance_weight''),
      (''coherence_weight'', ''coherence_weight''),
      (''freshness_weight'', ''freshness_weight''),
      (''monotony_weight'', ''monotony_weight'')]"

text \<open>
  A result on which the body of the loop raises nothing: \<^verbatim>\<open>float\<close> converts the
  early-termination value (or the field is absent); the score breakdown is absent, falsy or a
  mapping; and where the configured and the realized length are both truthy, \<^verbatim>\<open>float\<close>
  converts both and the configured one does not convert to zero.
\<close>

definition normalizable :: "(string \<Rightarrow> real option) \<Rightarrow> pyval \<Rightarrow> bool" where
  "normalizable parse result =
     (let early = py_get result ''early_termination'' (PFloat 0);
          sb = py_get result ''score_breakdown'' (PDict []);
          cfg = config_value (py_get result ''config'' PNone) ''conversation_length'' PNone;
          len = py_get result ''conversation_length'' PNone
      in float_ok parse early
         \<and> (if py_truthy sb then (case sb of PDict d \<Rightarrow> True | _ \<Rightarrow> False) else True)
         \<and> (if py_truthy cfg \<and> py_truthy len
             then float_ok parse len \<and> float_ok parse cfg \<and> py_float parse cfg \<noteq> Inr 0
             else True))"

section \<open>Data frames and the numeric backend\<close>

text \<open>
  The functions on tables take a pandas \<^verbatim>\<open>DataFrame\<close> of numbers: the column names and the
  rows, a row giving for a column \<open>Some x\<close> or \<open>None\<close> where pandas holds NaN.
\<close>

type_synonym df_row = "string \<Rightarrow> real option"

datatype frame = Frame (columns: "string list") (rows: "df_row list")

text \<open>
  What pandas and numpy provide and the repository does not define: whether pandas could be
  imported (the module-level \<^verbatim>\<open>pd\<close> is \<^verbatim>\<open>None\<close> otherwise), the generator made from an
  integer seed, the generator made from the operating system's entropy (which uses it up),
  \<^verbatim>\<open>rng.choice(values, size=(iterations, n), replace=True)\<close>, which also advances the
  generator, \<^verbatim>\<open>np.quantile\<close>, and \<^verbatim>\<open>sort_values\<close> on one column.
  \<open>'g\<close> is the state of a generator and \<open>'w\<close> the state of the entropy source.
\<close>

record ('g, 'w) backend =
  pd_available :: bool
  default_rng :: "int \<Rightarrow> error + 'g"
  entropy_rng :: "'w \<Rightarrow> 'g \<times> 'w"
  choice :: "'g \<Rightarrow> real list \<Rightarrow> int \<Rightarrow> nat \<Rightarrow> (error + real list list) \<times> 'g"
  quantile :: "real list \<Rightarrow> real list \<Rightarrow> error + real list"
  sort_values :: "(df_row \<Rightarrow> real option) \<Rightarrow> df_row list \<Rightarrow> df_row list"

text \<open>\<^verbatim>\<open>_require_pandas()\<close>.\<close>

definition require_pandas :: "('g, 'w, 'z) backend_scheme \<Rightarrow> error + unit" where
  "require_pandas np = (if pd_available np then Inr () else Inl ImportError)"

text \<open>The argument \<^verbatim>\<open>random_state: int | np.random.Generator | None\<close>.\<close>

datatype 'g random_state = Seed int | Generator 'g | NoRandomState

text \<open>The arithmetic mean of a non-empty array.\<close>

definition mean :: "real list \<Rightarrow> real" where
  "mean xs = sum_list xs / real (length xs)"

text \<open>\<^verbatim>\<open>series.dropna()\<close> of one column of some rows.\<close>

definition dropna :: "string \<Rightarrow> df_row list \<Rightarrow> real list" where
  "dropna col rs = List.map_filter (\<lambda>r. r col) rs"

text \<open>
  \<^verbatim>\<open>groupby\<close> with its defaults: rows whose key has a NaN are dropped, the groups come in
  ascending order of the key, and the rows of a group keep their order.
\<close>

definition group_rows :: "(df_row \<Rightarrow> 'k option) \<Rightarrow> df_row list \<Rightarrow> ('k::linorder \<times> df_row list) list" where
  "group_rows keyf rs =
     map (\<lambda>k. (k, filter (\<lambda>r. keyf r = Some k) rs)) (sort (remdups (List.map_filter keyf rs)))"

text \<open>The key of a row for a list of grouping columns: a tuple, or nothing if a cell is NaN.\<close>

definition tuple_key :: "string list \<Rightarrow> df_row \<Rightarrow> real list option" where
  "tuple_key cols r = those (map r cols)"

text \<open>\<^verbatim>\<open>df.groupby(list(group_cols))\<close>: no keys and unknown columns raise.\<close>

definition groupby_cols :: "frame \<Rightarrow> string list \<Rightarrow> error + (real list \<times> df_row list) list" where
  "groupby_cols df cols =
     (if cols = [] then Inl (ValueError ''No group keys passed!'')
      else if \<not> set cols \<subseteq> set (columns df) then Inl KeyError
      else Inr (group_rows (tuple_key cols) (rows df)))"

text \<open>
  \<^verbatim>\<open>pd.DataFrame(rows)[cols]\<close> for a list of dictionaries: the frame has the keys of the
  dictionaries as columns, and selecting a column that is not among them raises.
\<close>

datatype table = Table (table_columns: "string list") (table_rows: "real option list list")

definition select_columns :: "(string \<times> real) list list \<Rightarrow> string list \<Rightarrow> error + table" where
  "select_columns dicts cols =
     (if \<not> set cols \<subseteq> set (concat (map (map fst) dicts)) then Inl KeyError
      else Inr (Table cols (map (\<lambda>d. map (map_of d) cols) dicts)))"

section \<open>Bootstrap Estimator: \<^verbatim>\<open>bootstrap_ci\<close>\<close>

text \<open>The generator of an invocation, and the entropy source after making it.\<close>

definition make_rng :: "('g, 'w, 'z) backend_scheme \<Rightarrow> 'w \<Rightarrow> 'g random_state \<Rightarrow> (error + 'g) \<times> 'w" where
  "make_rng np w random_state =
     (case random_state of
        Generator g \<Rightarrow> (Inr g, w)
      | Seed s \<Rightarrow> (default_rng np s, w)
      | NoRandomState \<Rightarrow> (case entropy_rng np w of (g, w') \<Rightarrow> (Inr g, w')))"

text \<open>
  The loop over the groups.  It returns the rows built, or the exception raised, and the state
  the generator is left in.
\<close>

fun boot_loop ::
  "('g, 'w, 'z) backend_scheme \<Rightarrow> string list \<Rightarrow> string list \<Rightarrow> string \<Rightarrow> int \<Rightarrow> real \<Rightarrow> 'g
     \<Rightarrow> (real list \<times> df_row list) list \<Rightarrow> (error + (string \<times> real) list list) \<times> 'g" where
  "boot_loop np cols group_cols metric iterations alpha rng [] = (Inr [], rng)"
| "boot_loop np cols group_cols metric iterations alpha rng ((key, grp) # rest) =
     (if metric \<notin> set cols then (Inl KeyError, rng)
      else
        let vals = dropna metric grp in
        if vals = [] then boot_loop np cols group_cols metric iterations alpha rng rest
        else
          (case choice np rng vals iterations (length vals) of
             (Inl e, rng') \<Rightarrow> (Inl e, rng')
           | (Inr samples, rng') \<Rightarrow>
              (case quantile np (map mean samples) [alpha, 1 - alpha] of
                 Inl e \<Rightarrow> (Inl e, rng')
               | Inr [lo, hi] \<Rightarrow>
                  (let row = fold (\<lambda>(col, v). AList.update col v) (zip group_cols key)
                               [(''mean'', mean vals), (''ci_low'', lo), (''ci_high'', hi),
                                (''n'', real (length vals))]
                   in case boot_loop np cols group_cols metric iterations alpha rng' rest of
                        (Inl e, rng'') \<Rightarrow> (Inl e, rng'')
                      | (Inr out, rng'') \<Rightarrow> (Inr (row # out), rng''))
               | Inr _ \<Rightarrow> (Inl (ValueError ''unpack''), rng'))))"

text \<open>
  \<^verbatim>\<open>bootstrap_ci\<close>.  Besides the table or the exception it returns what the caller can
  observe afterwards: the random state passed in (a generator object is left advanced, an
  integer is unchanged) and the entropy source.
\<close>

definition bootstrap_ci ::
  "('g, 'w, 'z) backend_scheme \<Rightarrow> 'w \<Rightarrow> frame \<Rightarrow> string list \<Rightarrow> string \<Rightarrow> int \<Rightarrow> real \<Rightarrow> 'g random_state
     \<Rightarrow> (error + table) \<times> 'g random_state \<times> 'w" where
  "bootstrap_ci np w df group_cols metric iterations confidence random_state =
     (case require_pandas np of
        Inl e \<Rightarrow> (Inl e, random_state, w)
      | Inr _ \<Rightarrow>
         if \<not> (0 < confidence \<and> confidence < 1)
         then (Inl (ValueError ''confidence must be between 0 and 1''), random_state, w)
         else
           (case make_rng np w random_state of
              (Inl e, w') \<Rightarrow> (Inl e, random_state, w')
            | (Inr rng, w') \<Rightarrow>
               (let alpha = (1 - confidence) / 2 in
                case groupby_cols df group_cols of
                  Inl e \<Rightarrow> (Inl e, random_state, w')
                | Inr groups \<Rightarrow>
                   (case boot_loop np (columns df) group_cols metric iterations alpha rng groups of
                      (res, rng') \<Rightarrow>
                        (let after = (case random_state of Generator _ \<Rightarrow> Generator rng' | _ \<Rightarrow> random_state)
                         in case res of
                              Inl e \<Rightarrow> (Inl e, after, w')
                            | Inr out \<Rightarrow>
                               (select_columns out (group_cols @ [''mean'', ''ci_low'', ''ci_high'', ''n'']),
                                after, w'))))))"

text \<open>
  A stand-in backend for evaluating the functions on concrete inputs.  It is not numpy: the
  generator is a counter, every resample is the sample itself, the quantile below one half
  is the minimum and any other the maximum, and sorting is a stable insertion sort with NaN
  last.
\<close>

definition na_le :: "real option \<Rightarrow> real option \<Rightarrow> bool" where
  "na_le a b = (case b of None \<Rightarrow> True | Some y \<Rightarrow> (case a of None \<Rightarrow> False | Some x \<Rightarrow> x \<le> y))"

fun na_insort :: "(df_row \<Rightarrow> real option) \<Rightarrow> df_row \<Rightarrow> df_row list \<Rightarrow> df_row list" where
  "na_insort keyf r [] = [r]"
| "na_insort keyf r (s # rs) =
     (if na_le (keyf s) (keyf r) then s # na_insort keyf r rs else r # s # rs)"

definition stable_sort_values :: "(df_row \<Rightarrow> real option) \<Rightarrow> df_row list \<Rightarrow> df_row list" where
  "stable_sort_values keyf rs = foldl (\<lambda>acc r. na_insort keyf r acc) [] rs"

definition counter_backend :: "(nat, unit) backend" where
  "counter_backend =
     \<lparr> pd_available = True,
       default_rng = (\<lambda>s. if s < 0 then Inl (ValueError ''expected non-negative integer'') else Inr (nat s)),
       entropy_rng = (\<lambda>w. (0, w)),
       choice = (\<lambda>g vals iterations n.
          if iterations < 0 then (Inl (ValueError ''negative dimensions are not allowed''), g)
          else (Inr (replicate (nat iterations) (take n vals)), g + nat iterations * n)),
       quantile = (\<lambda>xs qs.
          case xs of
            [] \<Rightarrow> Inl (ValueError ''empty'')
          | x # rest \<Rightarrow> Inr (map (\<lambda>q. if 2 * q < 1 then fold min rest x else fold max rest x) qs)),
       sort_values = stable_sort_values \<rparr>"

text \<open>With an integer seed the entropy source plays no part.\<close>

definition seeded_result ::
  "('g, 'w, 'z) backend_scheme \<Rightarrow> frame \<Rightarrow> string list \<Rightarrow> string \<Rightarrow> int \<Rightarrow> real \<Rightarrow> int \<Rightarrow> error + table" where
  "seeded_result np df group_cols metric iterations confidence s =
     (case require_pandas np of
        Inl e \<Rightarrow> Inl e
      | Inr _ \<Rightarrow>
         if \<not> (0 < confidence \<and> confidence < 1)
         then Inl (ValueError ''confidence must be between 0 and 1'')
         else
           (case default_rng np s of
              Inl e \<Rightarrow> Inl e
            | Inr rng \<Rightarrow>
               (case groupby_cols df group_cols of
                  Inl e \<Rightarrow> Inl e
                | Inr groups \<Rightarrow>
                   (case fst (boot_loop np (columns df) group_cols metric iterations
                                ((1 - confidence) / 2) rng groups) of
                      Inl e \<Rightarrow> Inl e
                    | Inr out \<Rightarrow>
                       select_columns out (group_cols @ [''mean'', ''ci_low'', ''ci_high'', ''n''])))))"

section \<open>Stability Curve Builder: \<^verbatim>\<open>seed_stability_curves\<close>\<close>

text \<open>
  \<^verbatim>\<open>values.expanding().mean()\<close> on a series without NaN: pandas keeps a running sum and a
  running count and emits their quotient at every position.
\<close>

fun expanding_from :: "real \<Rightarrow> nat \<Rightarrow> real list \<Rightarrow> real list" where
  "expanding_from s n [] = []"
| "expanding_from s n (x # xs) = ((s + x) / real (Suc n)) # expanding_from (s + x) (Suc n) xs"

definition expanding_mean :: "real list \<Rightarrow> real list" where
  "expanding_mean xs = expanding_from 0 0 xs"

text \<open>The loop over the groups: a group without a value is skipped.\<close>

fun curves_loop :: "string \<Rightarrow> (real \<times> df_row list) list \<Rightarrow> (real \<times> real list) list" where
  "curves_loop metric [] = []"
| "curves_loop metric ((level, grp) # rest) =
     (let vals = dropna metric grp in
      if vals = [] then curves_loop metric rest
      else (level, expanding_mean vals) # curves_loop metric rest)"

text \<open>
  \<^verbatim>\<open>seed_stability_curves\<close>.  The dictionary it returns is the list of its items in
  insertion order.  Sorting and grouping by an unknown column raise, and so does reading the
  metric of the first group.
\<close>

definition seed_stability_curves ::
  "('g, 'w, 'z) backend_scheme \<Rightarrow> frame \<Rightarrow> string \<Rightarrow> string \<Rightarrow> string \<Rightarrow> error + (real \<times> real list) list" where
  "seed_stability_curves np df group_col metric order_col =
     (case require_pandas np of
        Inl e \<Rightarrow> Inl e
      | Inr _ \<Rightarrow>
         if order_col \<notin> set (columns df) then Inl KeyError
         else
           (let ordered = sort_values np (\<lambda>r. r order_col) (rows df) in
            if group_col \<notin> set (columns df) then Inl KeyError
            else
              (let groups = group_rows (\<lambda>r. r group_col) ordered in
               if groups \<noteq> [] \<and> metric \<notin> set (columns df) then Inl KeyError
               else Inr (curves_loop metric groups))))"

text \<open>
  What \<^verbatim>\<open>sort_values\<close> is taken to do, whatever the algorithm: it permutes the rows into
  ascending order of the key, NaN last.
\<close>

definition sorts_by_key :: "((df_row \<Rightarrow> real option) \<Rightarrow> df_row list \<Rightarrow> df_row list) \<Rightarrow> bool" where
  "sorts_by_key srt =
     (\<forall>keyf rs. mset (srt keyf rs) = mset rs
        \<and> sorted_wrt (\<lambda>r s. na_le (keyf r) (keyf s)) (srt keyf rs))"

section \<open>Pairwise Contrast Engine: \<^verbatim>\<open>pairwise_deltas\<close>\<close>










section \<open>Properties of the Record Normalizer\<close>

lemma map_of_add_breakdown:
  "take 7 k \<noteq> ''shared_'' \<Longrightarrow> map_of (add_breakdown row entries) k = map_of row k"
proof (induction entries arbitrary: row)
  case Nil
  then show ?case by simp
next
  case (Cons e entries)
  obtain c v where e: "e = (c, v)" by (cases e)
  from Cons.prems have "''shared_'' @ c \<noteq> k" by auto
  with Cons show ?case by (simp add: e update_conv')
qed




lemma base_lookup_cfg: "map_of (base_row result early) ''conversation_length_cfg'' =
   Some (config_value (py_get result ''config'' PNone) ''conversation_length'' PNone)"
  by (simp add: base_row_def Let_def)

lemma base_lookup_len: "map_of (base_row result early) ''conversation_length'' =
   Some (py_get result ''conversation_length'' PNone)"
  by (simp add: base_row_def Let_def)



lemma base_lookup_config:
  "(k, attr) \<in> set config_fields \<Longrightarrow>
     map_of (base_row result early) k = Some (config_value (py_get result ''config'' PNone) attr PNone)"
  apply (simp add: config_fields_def)
  apply (elim disjE conjE)
  apply (simp_all add: base_row_def Let_def)
  done



lemma config_key_plain: "(k, attr) \<in> set config_fields \<Longrightarrow> take 7 k \<noteq> ''shared_'' \<and> k \<noteq> ''length_utilization''"
  apply (simp add: config_fields_def)
  apply (elim disjE conjE)
  apply simp_all
  done


lemma results_to_records_nth:
  "results_to_records parse results = Inr records \<Longrightarrow>
     length records = length results \<and> (\<forall>i < length results. result_row parse (results ! i) = Inr (records ! i))"
proof (induction results arbitrary: records)
  case Nil
  then show ?case by simp
next
  case (Cons r rs)
  then obtain row recs where r: "result_row parse r = Inr row" and
    rs: "results_to_records parse rs = Inr recs" and rec: "records = row # recs"
    by (auto split: sum.splits)
  from Cons.IH [OF rs] r rec show ?case by (auto simp: nth_Cons split: nat.splits)
qed

lemma float_okE:
  assumes "float_ok parse v"
  obtains x where "py_float parse v = Inr x"
  using assms by (cases "py_float parse v") (simp_all add: float_ok_def)

lemma normalizable_row_iff:
  "(\<exists>row. result_row parse result = Inr row) \<longleftrightarrow> normalizable parse result"
proof -
  let ?cfg = "config_value (py_get result ''config'' PNone) ''conversation_length'' PNone"
  let ?len = "py_get result ''conversation_length'' PNone"
  let ?early = "py_get result ''early_termination'' (PFloat 0)"
  let ?sb = "py_get result ''score_breakdown'' (PDict [])"
  have c: "row_get (add_breakdown (base_row result early) entries) ''conversation_length_cfg'' = ?cfg"
    for early entries by (simp add: row_get_def map_of_add_breakdown base_lookup_cfg)
  have l: "row_get (add_breakdown (base_row result early) entries) ''conversation_length'' = ?len"
    for early entries by (simp add: row_get_def map_of_add_breakdown base_lookup_len)
  have u: "(\<exists>row. add_utilization parse (add_breakdown (base_row result early) entries) = Inr row)
       \<longleftrightarrow> (if py_truthy ?cfg \<and> py_truthy ?len
             then float_ok parse ?len \<and> float_ok parse ?cfg \<and> py_float parse ?cfg \<noteq> Inr 0
             else True)" for early entries
    by (cases "py_float parse ?len"; cases "py_float parse ?cfg")
       (auto simp: add_utilization_def Let_def c l float_ok_def)
  have i: "(\<exists>entries. py_items (if py_truthy ?sb then ?sb else PDict []) = Inr entries)
       \<longleftrightarrow> (if py_truthy ?sb then (case ?sb of PDict d \<Rightarrow> True | _ \<Rightarrow> False) else True)"
    by (cases ?sb) simp_all
  show ?thesis
  proof (cases "py_float parse ?early")
    case (Inl e)
    then show ?thesis by (simp add: result_row_def normalizable_def float_ok_def)
  next
    case early: (Inr early)
    show ?thesis
    proof (cases "py_items (if py_truthy ?sb then ?sb else PDict [])")
      case (Inl e)
      with i have "\<not> (if py_truthy ?sb then (case ?sb of PDict d \<Rightarrow> True | _ \<Rightarrow> False) else True)"
        by simp
      with early Inl show ?thesis
        by (simp add: result_row_def normalizable_def float_ok_def Let_def)
    next
      case entries: (Inr entries)
      with i have "(if py_truthy ?sb then (case ?sb of PDict d \<Rightarrow> True | _ \<Rightarrow> False) else True)"
        by auto
      with early entries u [of early entries] show ?thesis
        by (simp add: result_row_def normalizable_def float_ok_def Let_def)
    qed
  qed
qed

lemma results_to_records_returns_iff:
  "(\<exists>records. results_to_records parse results = Inr records)
     \<longleftrightarrow> (\<forall>r \<in> set results. normalizable parse r)"
proof (induction results)
  case Nil
  then show ?case by simp
next
  case (Cons r rs)
  show ?case
  proof (cases "result_row parse r")
    case (Inl e)
    with normalizable_row_iff [of parse r] show ?thesis by simp
  next
    case row: (Inr row)
    with normalizable_row_iff [of parse r] have n: "normalizable parse r" by blast
    show ?thesis
    proof (cases "results_to_records parse rs")
      case (Inl e)
      with Cons.IH row show ?thesis by simp
    next
      case (Inr recs)
      with Cons.IH row n show ?thesis by simp
    qed
  qed
qed




text \<open>
  C8: the claim says the normalizer never raises.  The code does: a result whose
  early-termination field holds \<^verbatim>\<open>None\<close> raises \<^verbatim>\<open>TypeError\<close> in \<^verbatim>\<open>float\<close>, and a result
  whose score breakdown is a non-empty list raises \<^verbatim>\<open>AttributeError\<close> at \<^verbatim>\<open>.items()\<close>.
\<close>

theorem results_to_records_raises:
  "results_to_records (\<lambda>s. None) [PDict [(''early_termination'', PNone)]] = Inl TypeError
   \<and> results_to_records (\<lambda>s. None) [PDict [(''score_breakdown'', PList [PInt 1])]] = Inl AttributeError"
  by (simp add: result_row_def)



section \<open>Properties of the Bootstrap Estimator\<close>

lemma dropna_empty_iff: "dropna col rs = [] \<longleftrightarrow> (\<forall>r \<in> set rs. r col = None)"
  by (auto simp: dropna_def map_filter_def filter_empty_conv)

lemma length_dropna: "length (dropna col rs) = length (filter (\<lambda>r. r col \<noteq> None) rs)"
  by (simp add: dropna_def map_filter_def)

lemma group_rows_member:
  "(k, grp) \<in> set (group_rows keyf rs) \<Longrightarrow> grp = filter (\<lambda>r. keyf r = Some k) rs"
  by (auto simp: group_rows_def)

lemma boot_loop_no_observations:
  assumes "\<forall>(k, grp) \<in> set groups. dropna metric grp = []"
  shows "boot_loop np cols group_cols metric iterations alpha rng groups
           = (if groups = [] \<or> metric \<in> set cols then Inr [] else Inl KeyError, rng)"
  using assms
proof (induction groups)
  case Nil
  then show ?case by simp
next
  case (Cons kg groups)
  obtain k grp where kg: "kg = (k, grp)" by (cases kg)
  from Cons.prems kg have e: "dropna metric grp = []" by simp
  from Cons.prems have "\<forall>(k, grp) \<in> set groups. dropna metric grp = []" by simp
  with Cons.IH have
    "boot_loop np cols group_cols metric iterations alpha rng groups
       = (if groups = [] \<or> metric \<in> set cols then Inr [] else Inl KeyError, rng)" by blast
  with e show ?case by (simp add: kg)
qed

lemma boot_loop_length:
  "boot_loop np cols group_cols metric iterations alpha rng groups = (Inr out, rng') \<Longrightarrow>
     length out = length (filter (\<lambda>(k, grp). dropna metric grp \<noteq> []) groups)"
proof (induction groups arbitrary: rng out rng')
  case Nil
  then show ?case by simp
next
  case (Cons kg groups)
  obtain k grp where kg: "kg = (k, grp)" by (cases kg)
  show ?case
  proof (cases "dropna metric grp = []")
    case True
    with Cons.prems kg have
      "boot_loop np cols group_cols metric iterations alpha rng groups = (Inr out, rng')"
      by (simp split: if_splits)
    from Cons.IH [OF this] True show ?thesis by (simp add: kg)
  next
    case False
    with Cons.prems kg obtain rng1 out1 where
      "boot_loop np cols group_cols metric iterations alpha rng1 groups = (Inr out1, rng')"
      "length out = Suc (length out1)"
      by (auto simp: Let_def split: if_splits prod.splits sum.splits list.splits)
    with Cons.IH [of rng1 out1 rng'] False show ?thesis by (simp add: kg)
  qed
qed

lemma select_columns_empty: "cols \<noteq> [] \<Longrightarrow> select_columns [] cols = Inl KeyError"
  by (cases cols) (simp_all add: select_columns_def)

lemma select_columns_rows:
  "select_columns dicts cols = Inr t \<Longrightarrow> length (table_rows t) = length dicts \<and> table_columns t = cols"
  by (auto simp: select_columns_def split: if_splits)

lemma groups_without_observations:
  assumes "\<forall>r \<in> set rs. keyf r = None \<or> r metric = None"
  shows "\<forall>(k, grp) \<in> set (group_rows keyf rs). dropna metric grp = []"
proof (clarify)
  fix k grp assume "(k, grp) \<in> set (group_rows keyf rs)"
  then have "grp = filter (\<lambda>r. keyf r = Some k) rs" by (rule group_rows_member)
  with assms show "dropna metric grp = []" by (auto simp: dropna_empty_iff)
qed

lemma bootstrap_ci_seeded:
  "bootstrap_ci np w df group_cols metric iterations confidence (Seed s)
     = (seeded_result np df group_cols metric iterations confidence s, Seed s, w)"
proof (cases "require_pandas np")
  case (Inl e)
  then show ?thesis by (simp add: bootstrap_ci_def seeded_result_def)
next
  case pd: (Inr u)
  show ?thesis
  proof (cases "0 < confidence \<and> confidence < 1")
    case False
    with pd show ?thesis by (simp add: bootstrap_ci_def seeded_result_def)
  next
    case conf: True
    show ?thesis
    proof (cases "default_rng np s")
      case (Inl e)
      with pd conf show ?thesis by (simp add: bootstrap_ci_def seeded_result_def make_rng_def)
    next
      case rng: (Inr rng)
      show ?thesis
      proof (cases "groupby_cols df group_cols")
        case (Inl e)
        with pd conf rng show ?thesis
          by (simp add: bootstrap_ci_def seeded_result_def make_rng_def)
      next
        case groups: (Inr groups)
        obtain res rng' where loop:
          "boot_loop np (columns df) group_cols metric iterations ((1 - confidence) / 2) rng groups
             = (res, rng')" by (cases "boot_loop np (columns df) group_cols metric iterations ((1 - confidence) / 2) rng groups")
        with pd conf rng groups show ?thesis
          by (cases res) (simp_all add: bootstrap_ci_def seeded_result_def make_rng_def)
      qed
    qed
  qed
qed

lemma bootstrap_ci_valid:
  assumes "pd_available np" "0 < confidence" "confidence < 1"
    and "make_rng np w random_state = (Inr rng, w')"
    and "groupby_cols df group_cols = Inr groups"
    and "boot_loop np (columns df) group_cols metric iterations ((1 - confidence) / 2) rng groups = (res, rng')"
  shows "fst (bootstrap_ci np w df group_cols metric iterations confidence random_state)
     = (case res of Inl e \<Rightarrow> Inl e
        | Inr out \<Rightarrow> select_columns out (group_cols @ [''mean'', ''ci_low'', ''ci_high'', ''n'']))"
  using assms by (cases res) (simp_all add: bootstrap_ci_def require_pandas_def)

lemma bootstrap_ci_cases:
  obtains (early) e where "fst (bootstrap_ci np w df group_cols metric iterations confidence random_state) = Inl e"
      "\<not> (pd_available np \<and> 0 < confidence \<and> confidence < 1 \<and> group_cols \<noteq> []
          \<and> set group_cols \<subseteq> set (columns df) \<and> (\<exists>g. fst (make_rng np w random_state) = Inr g))"
  | (loop) rng w' res rng' where "pd_available np" "0 < confidence" "confidence < 1"
      "make_rng np w random_state = (Inr rng, w')"
      "groupby_cols df group_cols = Inr (group_rows (tuple_key group_cols) (rows df))"
      "boot_loop np (columns df) group_cols metric iterations ((1 - confidence) / 2) rng
         (group_rows (tuple_key group_cols) (rows df)) = (res, rng')"
proof (cases "pd_available np \<and> 0 < confidence \<and> confidence < 1")
  case False
  then have "\<exists>e. fst (bootstrap_ci np w df group_cols metric iterations confidence random_state) = Inl e"
    by (auto simp: bootstrap_ci_def require_pandas_def)
  with False early show ?thesis by blast
next
  case ok: True
  obtain r w' where mk: "make_rng np w random_state = (r, w')" by (cases "make_rng np w random_state")
  show ?thesis
  proof (cases r)
    case (Inl e)
    with ok mk have "fst (bootstrap_ci np w df group_cols metric iterations confidence random_state) = Inl e"
      by (simp add: bootstrap_ci_def require_pandas_def)
    moreover from Inl mk have "\<not> (\<exists>g. fst (make_rng np w random_state) = Inr g)" by simp
    ultimately show ?thesis using early by blast
  next
    case rng: (Inr rng)
    show ?thesis
    proof (cases "group_cols \<noteq> [] \<and> set group_cols \<subseteq> set (columns df)")
      case False
      then have "\<exists>e. groupby_cols df group_cols = Inl e" by (auto simp: groupby_cols_def)
      then obtain e where "groupby_cols df group_cols = Inl e" ..
      with ok mk rng have "fst (bootstrap_ci np w df group_cols metric iterations confidence random_state) = Inl e"
        by (simp add: bootstrap_ci_def require_pandas_def)
      with False early show ?thesis by blast
    next
      case True
      then have g: "groupby_cols df group_cols = Inr (group_rows (tuple_key group_cols) (rows df))"
        by (simp add: groupby_cols_def)
      obtain res rng' where "boot_loop np (columns df) group_cols metric iterations ((1 - confidence) / 2) rng
         (group_rows (tuple_key group_cols) (rows df)) = (res, rng')"
        by (cases "boot_loop np (columns df) group_cols metric iterations ((1 - confidence) / 2) rng
         (group_rows (tuple_key group_cols) (rows df))")
      with ok mk rng g loop show ?thesis by blast
    qed
  qed
qed

text \<open>
  C1: with an integer seed the result of \<^verbatim>\<open>bootstrap_ci\<close> is a function of the seed, the data
  and the parameters alone: whatever the state of the entropy source, an invocation returns the
  same table (or raises the same exception) as any other invocation with these arguments, and
  it leaves the seed and the entropy source as they were, so a second invocation starts from
  the same state as the first.  (The operations of numpy are functions of the generator state
  they are given; equality of reals stands for equality of the bits of the doubles.)
\<close>

theorem bootstrap_ci_seed_reproducible:
  "bootstrap_ci np w df group_cols metric iterations confidence (Seed s)
     = (fst (bootstrap_ci np w' df group_cols metric iterations confidence (Seed s)), Seed s, w)"
  by (simp add: bootstrap_ci_seeded)

theorem bootstrap_ci_seed_reproducible_witness:
  "bootstrap_ci counter_backend ()
       (Frame [''a'', ''x''] [[''a'' \<mapsto> 1, ''x'' \<mapsto> 4], [''a'' \<mapsto> 1, ''x'' \<mapsto> 6]]) [''a''] ''x'' 3 (9 / 10) (Seed 1)
     = (Inr (Table [''a'', ''mean'', ''ci_low'', ''ci_high'', ''n''] [[Some 1, Some 5, Some 5, Some 5, Some 2]]),
        Seed 1, ())"
proof -
  let ?df = "Frame [''a'', ''x''] [[''a'' \<mapsto> 1, ''x'' \<mapsto> 4], [''a'' \<mapsto> 1, ''x'' \<mapsto> 6]]"
  have g: "group_rows (tuple_key [''a'']) [[''a'' \<mapsto> 1, ''x'' \<mapsto> 4], [''a'' \<mapsto> 1, ''x'' \<mapsto> 6]]
      = [([1], [[''a'' \<mapsto> 1, ''x'' \<mapsto> 4], [''a'' \<mapsto> 1, ''x'' \<mapsto> 6]])]"
    by (simp add: group_rows_def tuple_key_def map_filter_def)
  have "fst (bootstrap_ci counter_backend () ?df [''a''] ''x'' 3 (9 / 10) (Seed 1))
      = Inr (Table [''a'', ''mean'', ''ci_low'', ''ci_high'', ''n''] [[Some 1, Some 5, Some 5, Some 5, Some 2]])"
    by (simp add: bootstrap_ci_seeded seeded_result_def require_pandas_def counter_backend_def
        groupby_cols_def g dropna_def map_filter_def select_columns_def Let_def mean_def
        numeral_3_eq_3)
  with bootstrap_ci_seed_reproducible [of counter_backend "()" ?df "[''a'']" "''x''" 3 "9 / 10" 1 "()"]
  show ?thesis by simp
qed

text \<open>
  C5, as the claim states it, fails: with the valid confidence 0.95 and a frame without rows
  \<^verbatim>\<open>bootstrap_ci\<close> raises \<^verbatim>\<open>KeyError\<close>, and the exception raised for the confidence 2 is the
  one raised for the confidence -3, a fixed message without the offending value.
\<close>

theorem bootstrap_ci_error_iff_counterexample:
  "fst (bootstrap_ci counter_backend () (Frame [''a'', ''x''] []) [''a''] ''x'' 1000 (95 / 100) (Seed 0))
     = Inl KeyError
   \<and> fst (bootstrap_ci counter_backend () (Frame [''a'', ''x''] []) [''a''] ''x'' 1000 2 (Seed 0))
     = Inl (ValueError ''confidence must be between 0 and 1'')
   \<and> fst (bootstrap_ci counter_backend () (Frame [''a'', ''x''] []) [''a''] ''x'' 1000 (- 3) (Seed 0))
     = Inl (ValueError ''confidence must be between 0 and 1'')"
  by (simp add: bootstrap_ci_def make_rng_def require_pandas_def counter_backend_def
      groupby_cols_def group_rows_def map_filter_def select_columns_def)

text \<open>
  C5, amended: whenever the confidence does not lie strictly between 0 and 1 (and pandas is
  present), \<^verbatim>\<open>bootstrap_ci\<close> raises \<^verbatim>\<open>ValueError\<close> with the fixed message
  \<^verbatim>\<open>confidence must be between 0 and 1\<close> before it makes a generator, groups the data or draws
  a sample: the random state and the entropy source are as they were.  (It also raises for a
  valid confidence, see C9, and the message does not name the offending value.)
\<close>

theorem bootstrap_ci_invalid_confidence:
  assumes "pd_available np" and "\<not> (0 < confidence \<and> confidence < 1)"
  shows "bootstrap_ci np w df group_cols metric iterations confidence random_state
           = (Inl (ValueError ''confidence must be between 0 and 1''), random_state, w)"
  using assms by (simp add: bootstrap_ci_def require_pandas_def)

theorem bootstrap_ci_invalid_confidence_witness:
  "bootstrap_ci counter_backend () (Frame [''a'', ''x''] [[''a'' \<mapsto> 1, ''x'' \<mapsto> 5]]) [''a''] ''x'' 1000 1
       (Generator 7)
     = (Inl (ValueError ''confidence must be between 0 and 1''), Generator 7, ())"
proof -
  have p: "pd_available counter_backend" by (simp add: counter_backend_def)
  have c: "\<not> (0 < (1::real) \<and> (1::real) < 1)" by simp
  from bootstrap_ci_invalid_confidence [OF p c] show ?thesis .
qed

text \<open>
  C9: if no row of the frame has both a complete group key and a metric value (so every group
  is without observations, or there is no group at all), \<^verbatim>\<open>bootstrap_ci\<close> raises; when the
  arguments are otherwise valid the exception is the \<^verbatim>\<open>KeyError\<close> of selecting the result
  columns from a frame built from no rows.  When it does return a table, the table has one
  row for each group with at least one observation, and none for the other groups.
\<close>

theorem bootstrap_ci_no_observations_raises:
  "((\<forall>r \<in> set (rows df). tuple_key group_cols r = None \<or> r metric = None) \<longrightarrow>
       (\<exists>e. fst (bootstrap_ci np w df group_cols metric iterations confidence random_state) = Inl e)
       \<and> (pd_available np \<and> 0 < confidence \<and> confidence < 1 \<and> group_cols \<noteq> []
            \<and> set group_cols \<subseteq> set (columns df) \<and> (\<exists>g. fst (make_rng np w random_state) = Inr g)
          \<longrightarrow> fst (bootstrap_ci np w df group_cols metric iterations confidence random_state) = Inl KeyError))
   \<and> (fst (bootstrap_ci np w df group_cols metric iterations confidence random_state) = Inr t \<longrightarrow>
       length (table_rows t)
         = length (filter (\<lambda>(k, grp). dropna metric grp \<noteq> []) (group_rows (tuple_key group_cols) (rows df))))"
proof (intro conjI impI)
  let ?groups = "group_rows (tuple_key group_cols) (rows df)"
  let ?sel = "group_cols @ [''mean'', ''ci_low'', ''ci_high'', ''n'']"
  let ?out = "fst (bootstrap_ci np w df group_cols metric iterations confidence random_state)"
  let ?valid = "pd_available np \<and> 0 < confidence \<and> confidence < 1 \<and> group_cols \<noteq> []
          \<and> set group_cols \<subseteq> set (columns df) \<and> (\<exists>g. fst (make_rng np w random_state) = Inr g)"
  have sel: "select_columns [] ?sel = Inl KeyError" by (rule select_columns_empty) simp
  have none: "?out = Inl KeyError \<or> ((\<exists>e. ?out = Inl e) \<and> \<not> ?valid)"
    if a: "\<forall>r \<in> set (rows df). tuple_key group_cols r = None \<or> r metric = None"
  proof (cases rule: bootstrap_ci_cases [of np w df group_cols metric iterations confidence random_state])
    case (early e)
    then show ?thesis by blast
  next
    case (loop rng w' res rng')
    from a have "\<forall>(k, grp) \<in> set ?groups. dropna metric grp = []"
      by (rule groups_without_observations)
    then have "boot_loop np (columns df) group_cols metric iterations ((1 - confidence) / 2) rng ?groups
        = (if ?groups = [] \<or> metric \<in> set (columns df) then Inr [] else Inl KeyError, rng)"
      by (rule boot_loop_no_observations)
    with loop(6) have "res = (if ?groups = [] \<or> metric \<in> set (columns df) then Inr [] else Inl KeyError)"
      by simp
    then have "res = Inr [] \<or> res = Inl KeyError" by (simp split: if_splits)
    moreover note bootstrap_ci_valid [OF loop]
    ultimately have "?out = Inl KeyError" using sel by auto
    then show ?thesis ..
  qed
  {
    assume a: "\<forall>r \<in> set (rows df). tuple_key group_cols r = None \<or> r metric = None"
    from none [OF a] show "\<exists>e. ?out = Inl e" by blast
    assume ?valid
    with none [OF a] show "?out = Inl KeyError" by blast
  }
  assume r: "?out = Inr t"
  show "length (table_rows t) = length (filter (\<lambda>(k, grp). dropna metric grp \<noteq> []) ?groups)"
  proof (cases rule: bootstrap_ci_cases [of np w df group_cols metric iterations confidence random_state])
    case (early e)
    with r show ?thesis by simp
  next
    case (loop rng w' res rng')
    from bootstrap_ci_valid [OF loop] r obtain out where res: "res = Inr out"
      and t: "select_columns out ?sel = Inr t" by (cases res) simp_all
    from loop(6) res have "length out = length (filter (\<lambda>(k, grp). dropna metric grp \<noteq> []) ?groups)"
      by (simp add: boot_loop_length)
    with select_columns_rows [OF t] show ?thesis by simp
  qed
qed

theorem bootstrap_ci_no_observations_raises_witness:
  "fst (bootstrap_ci counter_backend ()
          (Frame [''a'', ''x''] [[''a'' \<mapsto> 1], [''x'' \<mapsto> 5]]) [''a''] ''x'' 3 (9 / 10) (Seed 1))
     = Inl KeyError
   \<and> (\<exists>t. fst (bootstrap_ci counter_backend ()
               (Frame [''a'', ''x''] [[''a'' \<mapsto> 1, ''x'' \<mapsto> 4], [''a'' \<mapsto> 2], [''a'' \<mapsto> 1, ''x'' \<mapsto> 6]])
               [''a''] ''x'' 3 (9 / 10) (Seed 1)) = Inr t
          \<and> length (table_rows t) = 1)"
proof
  let ?df = "Frame [''a'', ''x''] [[''a'' \<mapsto> 1], [''x'' \<mapsto> 5]]"
  have h: "\<forall>r \<in> set (rows ?df). tuple_key [''a''] r = None \<or> r ''x'' = None"
    by (simp add: tuple_key_def)
  have v: "pd_available counter_backend \<and> 0 < (9 / 10 :: real) \<and> (9 / 10 :: real) < 1 \<and> [''a''] \<noteq> []
      \<and> set [''a''] \<subseteq> set (columns ?df) \<and> (\<exists>g. fst (make_rng counter_backend () (Seed 1)) = Inr g)"
    by (simp add: counter_backend_def make_rng_def)
  from bootstrap_ci_no_observations_raises [of ?df "[''a'']" "''x''" counter_backend "()" 3 "9 / 10" "Seed 1"] h v
  show "fst (bootstrap_ci counter_backend () ?df [''a''] ''x'' 3 (9 / 10) (Seed 1)) = Inl KeyError"
    by blast
next
  let ?df = "Frame [''a'', ''x''] [[''a'' \<mapsto> 1, ''x'' \<mapsto> 4], [''a'' \<mapsto> 2], [''a'' \<mapsto> 1, ''x'' \<mapsto> 6]]"
  have g: "group_rows (tuple_key [''a'']) [[''a'' \<mapsto> 1, ''x'' \<mapsto> 4], [''a'' \<mapsto> 2], [''a'' \<mapsto> 1, ''x'' \<mapsto> 6]]
      = [([1], [[''a'' \<mapsto> 1, ''x'' \<mapsto> 4], [''a'' \<mapsto> 1, ''x'' \<mapsto> 6]]), ([2], [[''a'' \<mapsto> 2]])]"
    by (simp add: group_rows_def tuple_key_def map_filter_def)
  have "\<exists>t. fst (bootstrap_ci counter_backend () ?df [''a''] ''x'' 3 (9 / 10) (Seed 1)) = Inr t"
    by (simp add: bootstrap_ci_seeded seeded_result_def require_pandas_def counter_backend_def
        groupby_cols_def g dropna_def map_filter_def select_columns_def Let_def mean_def
        numeral_3_eq_3)
  then obtain t where t: "fst (bootstrap_ci counter_backend () ?df [''a''] ''x'' 3 (9 / 10) (Seed 1)) = Inr t" ..
  with bootstrap_ci_no_observations_raises [of ?df "[''a'']" "''x''" counter_backend "()" 3 "9 / 10" "Seed 1" t]
  have "length (table_rows t)
      = length (filter (\<lambda>(k, grp). dropna ''x'' grp \<noteq> []) (group_rows (tuple_key [''a'']) (rows ?df)))"
    by blast
  then have "length (table_rows t) = 1" by (simp add: g dropna_def map_filter_def)
  with t show "\<exists>t. fst (bootstrap_ci counter_backend () ?df [''a''] ''x'' 3 (9 / 10) (Seed 1)) = Inr t
          \<and> length (table_rows t) = 1" by blast
qed

section \<open>Properties of the Stability Curve Builder\<close>

lemma expanding_from_length: "length (expanding_from s n xs) = length xs"
  by (induction xs arbitrary: s n) simp_all

lemma expanding_from_nth:
  "k < length xs \<Longrightarrow>
     expanding_from s n xs ! k = (s + sum_list (take (Suc k) xs)) / real (n + Suc k)"
proof (induction xs arbitrary: s n k)
  case Nil
  then show ?case by simp
next
  case (Cons x xs)
  show ?case
  proof (cases k)
    case 0
    then show ?thesis by simp
  next
    case (Suc j)
    with Cons.prems have "j < length xs" by simp
    from Cons.IH [OF this, of "s + x" "Suc n"] Suc show ?thesis by (simp add: add.assoc)
  qed
qed

lemma expanding_mean_length: "length (expanding_mean xs) = length xs"
  by (simp add: expanding_mean_def expanding_from_length)

lemma expanding_mean_nth:
  "k < length xs \<Longrightarrow> expanding_mean xs ! k = mean (take (Suc k) xs)"
  by (simp add: expanding_mean_def expanding_from_nth mean_def min_def)

lemma expanding_mean_last:
  assumes "xs \<noteq> []"
  shows "last (expanding_mean xs) = mean xs"
proof -
  from assms have l: "length xs - 1 < length xs" by (cases xs) simp_all
  from assms have "expanding_mean xs \<noteq> []"
    using expanding_mean_length [of xs] by auto
  then have "last (expanding_mean xs) = expanding_mean xs ! (length xs - 1)"
    by (simp add: last_conv_nth expanding_mean_length)
  also from l have "\<dots> = mean (take (Suc (length xs - 1)) xs)" by (rule expanding_mean_nth)
  also from l have "take (Suc (length xs - 1)) xs = xs" by simp
  finally show ?thesis .
qed

lemma mset_dropna:
  assumes "mset rs = mset rs'"
  shows "mset (dropna col rs) = mset (dropna col rs')"
proof -
  have "mset (dropna col qs) = image_mset (the \<circ> (\<lambda>r. r col)) (filter_mset (\<lambda>r. r col \<noteq> None) (mset qs))"
    for qs by (simp add: dropna_def map_filter_def)
  with assms show ?thesis by simp
qed

lemma mean_mset: "mset xs = mset ys \<Longrightarrow> mean xs = mean ys"
proof -
  assume a: "mset xs = mset ys"
  then have "sum_mset (mset xs) = sum_mset (mset ys)" by simp
  then have "sum_list xs = sum_list ys" by (simp add: sum_mset_sum_list)
  moreover from a have "length xs = length ys" by (rule mset_eq_length)
  ultimately show ?thesis by (simp add: mean_def)
qed

lemma group_rows_keys:
  "map fst (group_rows keyf rs) = sorted_list_of_set {k. \<exists>r \<in> set rs. keyf r = Some k}"
proof -
  have "set (List.map_filter keyf rs) = {k. \<exists>r \<in> set rs. keyf r = Some k}"
    by (auto simp: map_filter_def image_iff) force
  then show ?thesis
    by (simp add: group_rows_def comp_def sorted_list_of_set_sort_remdups [symmetric])
qed

lemma curves_loop_keys:
  "map fst (curves_loop metric groups) = map fst (filter (\<lambda>(k, grp). dropna metric grp \<noteq> []) groups)"
  by (induction groups) (auto simp: Let_def)

lemma curves_loop_member:
  "(level, curve) \<in> set (curves_loop metric groups) \<Longrightarrow>
     \<exists>grp. (level, grp) \<in> set groups \<and> dropna metric grp \<noteq> [] \<and> curve = expanding_mean (dropna metric grp)"
proof (induction groups)
  case Nil
  then show ?case by simp
next
  case (Cons kg groups)
  obtain k g where kg: "kg = (k, g)" by (cases kg)
  show ?case
  proof (cases "dropna metric g = []")
    case True
    with Cons.prems kg have "(level, curve) \<in> set (curves_loop metric groups)" by simp
    from Cons.IH [OF this] show ?thesis by auto
  next
    case False
    with Cons.prems kg have
      "(level, curve) = (k, expanding_mean (dropna metric g))
         \<or> (level, curve) \<in> set (curves_loop metric groups)"
      by (simp add: Let_def)
    then show ?thesis
    proof
      assume "(level, curve) = (k, expanding_mean (dropna metric g))"
      with False kg show ?thesis by auto
    next
      assume "(level, curve) \<in> set (curves_loop metric groups)"
      from Cons.IH [OF this] show ?thesis by auto
    qed
  qed
qed

lemma group_rows_fst: "map fst (group_rows keyf rs) = sort (remdups (List.map_filter keyf rs))"
  by (simp add: group_rows_def comp_def)

lemma group_rows_iff:
  "(k, grp) \<in> set (group_rows keyf rs)
     \<longleftrightarrow> (\<exists>r \<in> set rs. keyf r = Some k) \<and> grp = filter (\<lambda>r. keyf r = Some k) rs"
proof -
  have "set (List.map_filter keyf rs) = {k. \<exists>r \<in> set rs. keyf r = Some k}"
    by (auto simp: map_filter_def image_iff) force
  then show ?thesis by (auto simp: group_rows_def)
qed

lemma sorts_by_keyD:
  assumes "sorts_by_key srt"
  shows "mset (srt keyf rs) = mset rs"
    and "sorted_wrt (\<lambda>r s. na_le (keyf r) (keyf s)) (srt keyf rs)"
  using assms by (simp_all add: sorts_by_key_def)

lemma seed_stability_curves_value:
  assumes "pd_available np"
    and "group_col \<in> set (columns df)" "metric \<in> set (columns df)" "order_col \<in> set (columns df)"
  shows "seed_stability_curves np df group_col metric order_col
     = Inr (curves_loop metric
              (group_rows (\<lambda>r. r group_col) (sort_values np (\<lambda>r. r order_col) (rows df))))"
  using assms by (simp add: seed_stability_curves_def require_pandas_def Let_def)

lemma length_filter_mset: "mset xs = mset ys \<Longrightarrow> length (filter P xs) = length (filter P ys)"
proof -
  assume "mset xs = mset ys"
  then have "mset (filter P xs) = mset (filter P ys)" by simp
  then show ?thesis by (rule mset_eq_length)
qed

text \<open>
  C7: for frames that have the three columns, \<^verbatim>\<open>seed_stability_curves\<close> returns, in ascending
  order of the level, one curve for each level of the group field that has a metric value that
  is not null, and none for the other levels.  The curve of a level is made from the level's
  records put in ascending order of the order field: its entry at position \<open>k\<close> (from 0) is the
  mean of the first \<open>k + 1\<close> values that are not null, its length is the number of the level's
  records with a metric value, and its last entry is the mean of all these values.
\<close>

theorem seed_stability_curves_prefix_means:
  assumes "pd_available np" and "sorts_by_key (sort_values np)"
    and "group_col \<in> set (columns df)" "metric \<in> set (columns df)" "order_col \<in> set (columns df)"
  shows "\<exists>curves. seed_stability_curves np df group_col metric order_col = Inr curves
     \<and> sorted (map fst curves) \<and> distinct (map fst curves)
     \<and> set (map fst curves) = {level. \<exists>r \<in> set (rows df). r group_col = Some level \<and> r metric \<noteq> None}
     \<and> (\<forall>(level, curve) \<in> set curves.
          \<exists>grp. mset grp = mset (filter (\<lambda>r. r group_col = Some level) (rows df))
              \<and> sorted_wrt (\<lambda>r s. na_le (r order_col) (s order_col)) grp
              \<and> length curve = length (dropna metric grp)
              \<and> (\<forall>k < length curve. curve ! k = mean (take (Suc k) (dropna metric grp)))
              \<and> length curve = length (filter (\<lambda>r. r group_col = Some level \<and> r metric \<noteq> None) (rows df))
              \<and> curve \<noteq> []
              \<and> last curve = mean (dropna metric (filter (\<lambda>r. r group_col = Some level) (rows df))))"
proof -
  let ?ordered = "sort_values np (\<lambda>r. r order_col) (rows df)"
  let ?groups = "group_rows (\<lambda>r. r group_col) ?ordered"
  let ?curves = "curves_loop metric ?groups"
  have perm: "mset ?ordered = mset (rows df)"
    using assms(2) by (rule sorts_by_keyD)
  have srt: "sorted_wrt (\<lambda>r s. na_le (r order_col) (s order_col)) ?ordered"
    using assms(2) by (rule sorts_by_keyD)
  from perm have sets: "set ?ordered = set (rows df)" by (rule mset_eq_setD)
  have val: "seed_stability_curves np df group_col metric order_col = Inr ?curves"
    using assms(1,3,4,5) by (rule seed_stability_curves_value)
  have keys: "map fst ?curves = map fst (filter (\<lambda>(k, grp). dropna metric grp \<noteq> []) ?groups)"
    by (rule curves_loop_keys)
  have "sorted (map fst ?groups)" "distinct (map fst ?groups)"
    by (simp_all add: group_rows_fst)
  then have sd: "sorted (map fst ?curves)" "distinct (map fst ?curves)"
    unfolding keys by (simp_all add: sorted_filter distinct_map_filter)
  have levels: "set (map fst ?curves)
      = {level. \<exists>r \<in> set (rows df). r group_col = Some level \<and> r metric \<noteq> None}"
  proof (rule set_eqI)
    fix level
    have "level \<in> set (map fst ?curves)
        \<longleftrightarrow> (\<exists>grp. (level, grp) \<in> set ?groups \<and> dropna metric grp \<noteq> [])"
      unfolding keys by (auto simp: image_iff)
    also have "\<dots> \<longleftrightarrow> (\<exists>r \<in> set ?ordered. r group_col = Some level \<and> r metric \<noteq> None)"
      by (auto simp: group_rows_iff dropna_empty_iff)
    finally show "level \<in> set (map fst ?curves)
        \<longleftrightarrow> level \<in> {level. \<exists>r \<in> set (rows df). r group_col = Some level \<and> r metric \<noteq> None}"
      by (simp add: sets)
  qed
  have each: "\<exists>grp. mset grp = mset (filter (\<lambda>r. r group_col = Some level) (rows df))
              \<and> sorted_wrt (\<lambda>r s. na_le (r order_col) (s order_col)) grp
              \<and> length curve = length (dropna metric grp)
              \<and> (\<forall>k < length curve. curve ! k = mean (take (Suc k) (dropna metric grp)))
              \<and> length curve = length (filter (\<lambda>r. r group_col = Some level \<and> r metric \<noteq> None) (rows df))
              \<and> curve \<noteq> []
              \<and> last curve = mean (dropna metric (filter (\<lambda>r. r group_col = Some level) (rows df)))"
    if m: "(level, curve) \<in> set ?curves" for level curve
  proof -
    let ?grp = "filter (\<lambda>r. r group_col = Some level) ?ordered"
    let ?all = "filter (\<lambda>r. r group_col = Some level) (rows df)"
    from curves_loop_member [OF m] have ne: "dropna metric ?grp \<noteq> []"
      and c: "curve = expanding_mean (dropna metric ?grp)"
      by (auto simp: group_rows_iff)
    from perm have p: "mset ?grp = mset ?all" by simp
    from srt have s: "sorted_wrt (\<lambda>r s. na_le (r order_col) (s order_col)) ?grp"
      by (rule sorted_wrt_filter)
    have l: "length curve = length (dropna metric ?grp)"
      by (simp add: c expanding_mean_length)
    have n: "\<forall>k < length curve. curve ! k = mean (take (Suc k) (dropna metric ?grp))"
      by (simp add: c expanding_mean_length expanding_mean_nth)
    have "length (dropna metric ?grp) = length (filter (\<lambda>r. r metric \<noteq> None) ?grp)"
      by (rule length_dropna)
    also from p have "\<dots> = length (filter (\<lambda>r. r metric \<noteq> None) ?all)"
      by (rule length_filter_mset)
    also have "\<dots> = length (filter (\<lambda>r. r group_col = Some level \<and> r metric \<noteq> None) (rows df))"
      by (simp add: conj_commute)
    finally have cnt: "length curve
        = length (filter (\<lambda>r. r group_col = Some level \<and> r metric \<noteq> None) (rows df))"
      using l by simp
    from ne l have nonempty: "curve \<noteq> []" by auto
    from ne have "last curve = mean (dropna metric ?grp)"
      unfolding c by (rule expanding_mean_last)
    also from p have "\<dots> = mean (dropna metric ?all)"
      by (intro mean_mset mset_dropna)
    finally have lst: "last curve = mean (dropna metric ?all)" .
    from p s l n cnt nonempty lst show ?thesis by blast
  qed
  show ?thesis
  proof (intro exI [of _ ?curves] conjI)
    show "seed_stability_curves np df group_col metric order_col = Inr ?curves" by (rule val)
    show "sorted (map fst ?curves)" by (rule sd)
    show "distinct (map fst ?curves)" by (rule sd)
    show "set (map fst ?curves)
      = {level. \<exists>r \<in> set (rows df). r group_col = Some level \<and> r metric \<noteq> None}" by (rule levels)
    show "\<forall>(level, curve) \<in> set ?curves.
          \<exists>grp. mset grp = mset (filter (\<lambda>r. r group_col = Some level) (rows df))
              \<and> sorted_wrt (\<lambda>r s. na_le (r order_col) (s order_col)) grp
              \<and> length curve = length (dropna metric grp)
              \<and> (\<forall>k < length curve. curve ! k = mean (take (Suc k) (dropna metric grp)))
              \<and> length curve = length (filter (\<lambda>r. r group_col = Some level \<and> r metric \<noteq> None) (rows df))
              \<and> curve \<noteq> []
              \<and> last curve = mean (dropna metric (filter (\<lambda>r. r group_col = Some level) (rows df)))"
      by (intro ballI, clarify) (rule each)
  qed
qed

lemma na_le_total: "\<not> na_le a b \<Longrightarrow> na_le b a"
  by (auto simp: na_le_def split: option.splits)

lemma na_le_trans: "na_le a b \<Longrightarrow> na_le b c \<Longrightarrow> na_le a c"
  by (auto simp: na_le_def split: option.splits)

lemma mset_na_insort: "mset (na_insort keyf r rs) = add_mset r (mset rs)"
  by (induction rs) simp_all

lemma set_na_insort: "set (na_insort keyf r rs) = insert r (set rs)"
  by (induction rs) auto

lemma sorted_na_insort:
  "sorted_wrt (\<lambda>r s. na_le (keyf r) (keyf s)) rs
     \<Longrightarrow> sorted_wrt (\<lambda>r s. na_le (keyf r) (keyf s)) (na_insort keyf r rs)"
proof (induction rs)
  case Nil
  then show ?case by simp
next
  case (Cons s rs)
  show ?case
  proof (cases "na_le (keyf s) (keyf r)")
    case True
    with Cons show ?thesis by (auto simp: set_na_insort)
  next
    case False
    then have "na_le (keyf r) (keyf s)" by (rule na_le_total)
    with Cons.prems False show ?thesis by (auto intro: na_le_trans)
  qed
qed

lemma stable_sort_values_acc:
  "mset (foldl (\<lambda>acc r. na_insort keyf r acc) acc rs) = mset acc + mset rs
   \<and> (sorted_wrt (\<lambda>r s. na_le (keyf r) (keyf s)) acc
        \<longrightarrow> sorted_wrt (\<lambda>r s. na_le (keyf r) (keyf s)) (foldl (\<lambda>acc r. na_insort keyf r acc) acc rs))"
  by (induction rs arbitrary: acc) (simp_all add: mset_na_insort sorted_na_insort)

lemma stable_sort_values_sorts: "sorts_by_key stable_sort_values"
  using stable_sort_values_acc [of _ "[]"]
  by (simp add: sorts_by_key_def stable_sort_values_def)

theorem seed_stability_curves_prefix_means_witness:
  "seed_stability_curves counter_backend
      (Frame [''a'', ''x'', ''seed'']
         [[''a'' \<mapsto> 1, ''x'' \<mapsto> 20, ''seed'' \<mapsto> 2],
          [''a'' \<mapsto> 1, ''x'' \<mapsto> 10, ''seed'' \<mapsto> 1],
          [''a'' \<mapsto> 2, ''seed'' \<mapsto> 1]])
      ''a'' ''x'' ''seed'' = Inr [(1, [10, 15])]
   \<and> (\<exists>curves. seed_stability_curves counter_backend
         (Frame [''a'', ''x'', ''seed'']
            [[''a'' \<mapsto> 1, ''x'' \<mapsto> 20, ''seed'' \<mapsto> 2],
             [''a'' \<mapsto> 1, ''x'' \<mapsto> 10, ''seed'' \<mapsto> 1],
             [''a'' \<mapsto> 2, ''seed'' \<mapsto> 1]])
         ''a'' ''x'' ''seed'' = Inr curves
        \<and> sorted (map fst curves) \<and> distinct (map fst curves))"
proof
  show "seed_stability_curves counter_backend
      (Frame [''a'', ''x'', ''seed'']
         [[''a'' \<mapsto> 1, ''x'' \<mapsto> 20, ''seed'' \<mapsto> 2],
          [''a'' \<mapsto> 1, ''x'' \<mapsto> 10, ''seed'' \<mapsto> 1],
          [''a'' \<mapsto> 2, ''seed'' \<mapsto> 1]])
      ''a'' ''x'' ''seed'' = Inr [(1, [10, 15])]"
    by (simp add: seed_stability_curves_def require_pandas_def counter_backend_def
        stable_sort_values_def na_le_def group_rows_def map_filter_def dropna_def
        expanding_mean_def Let_def)
next
  let ?df = "Frame [''a'', ''x'', ''seed'']
            [[''a'' \<mapsto> 1, ''x'' \<mapsto> 20, ''seed'' \<mapsto> 2],
             [''a'' \<mapsto> 1, ''x'' \<mapsto> 10, ''seed'' \<mapsto> 1],
             [''a'' \<mapsto> 2, ''seed'' \<mapsto> 1]]"
  have p: "pd_available counter_backend" by (simp add: counter_backend_def)
  have s: "sorts_by_key (sort_values counter_backend)"
    by (simp add: counter_backend_def stable_sort_values_sorts)
  have c: "''a'' \<in> set (columns ?df)" "''x'' \<in> set (columns ?df)" "''seed'' \<in> set (columns ?df)"
    by simp_all
  from seed_stability_curves_prefix_means [OF p s c]
  show "\<exists>curves. seed_stability_curves counter_backend ?df ''a'' ''x'' ''seed'' = Inr curves
        \<and> sorted (map fst curves) \<and> distinct (map fst curves)"
    by blast
qed

section \<open>Properties of the Pairwise Contrast Engine\<close>












end
